theory Spec2Isabelle
  imports Main "HOL-Library.Char_ord" "HOL-Library.List_Lexorder"
begin

section \<open>The bulk file renamer (bulk\_rename.py)\<close>

text \<open>
  Python strings are modelled as \<^typ>\<open>string\<close>: lists of characters with code points
  below 256. Python integers that count positions are \<^typ>\<open>int\<close> where the source uses
  the value \<open>-1\<close> (the result of \<open>rfind\<close>) and \<^typ>\<open>nat\<close> otherwise.
\<close>

subsection \<open>os.path.splitext\<close>

text \<open>
  The five transforms all start with \<^verbatim>\<open>name, ext = os.path.splitext(filename)\<close>.
  On POSIX this is \<^verbatim>\<open>genericpath._splitext(p, '/', None, '.')\<close>:
  \<^verbatim>\<open>
    sepIndex = p.rfind(sep)
    dotIndex = p.rfind(extsep)
    if dotIndex > sepIndex:
        # skip all leading dots
        filenameIndex = sepIndex + 1
        while filenameIndex < dotIndex:
            if p[filenameIndex:filenameIndex+1] != extsep:
                return p[:dotIndex], p[dotIndex:]
            filenameIndex += 1
    return p, p[:0]
  \<close>
\<close>

abbreviation extsep :: char where "extsep \<equiv> CHR ''.''"
abbreviation sep :: char where "sep \<equiv> CHR ''/''"

text \<open>\<^verbatim>\<open>str.rfind\<close> for a single character: the highest index holding it, or \<open>-1\<close>.\<close>

fun rfind :: "char \<Rightarrow> string \<Rightarrow> int" where
  "rfind c [] = - 1"
| "rfind c (x # xs) =
     (let r = rfind c xs in
      if 0 \<le> r then r + 1 else if x = c then 0 else - 1)"

text \<open>The \<^verbatim>\<open>while\<close> loop of \<^verbatim>\<open>_splitext\<close>, with its early return.\<close>

function splitext_loop :: "string \<Rightarrow> nat \<Rightarrow> nat \<Rightarrow> string \<times> string" where
  "splitext_loop p filenameIndex dotIndex =
     (if filenameIndex < dotIndex then
        (if p ! filenameIndex \<noteq> extsep then (take dotIndex p, drop dotIndex p)
         else splitext_loop p (filenameIndex + 1) dotIndex)
      else (p, []))"
  by pat_completeness auto
termination
  by (relation "measure (\<lambda>(p, filenameIndex, dotIndex). dotIndex - filenameIndex)") auto

declare splitext_loop.simps [simp del]

definition splitext :: "string \<Rightarrow> string \<times> string" where
  "splitext p =
     (let sepIndex = rfind sep p;
          dotIndex = rfind extsep p
      in if dotIndex > sepIndex
         then splitext_loop p (nat (sepIndex + 1)) (nat dotIndex)
         else (p, []))"

subsection \<open>The string transforms\<close>

text \<open>\<^verbatim>\<open>add_prefix\<close>: \<^verbatim>\<open>return f"{prefix}{name}{ext}"\<close>.\<close>

definition add_prefix :: "string \<Rightarrow> string \<Rightarrow> string" where
  "add_prefix filename prefix =
     (case splitext filename of (name, ext) \<Rightarrow> prefix @ name @ ext)"

text \<open>\<^verbatim>\<open>add_suffix\<close>: \<^verbatim>\<open>return f"{name}{suffix}{ext}"\<close>.\<close>

definition add_suffix :: "string \<Rightarrow> string \<Rightarrow> string" where
  "add_suffix filename suffix =
     (case splitext filename of (name, ext) \<Rightarrow> name @ suffix @ ext)"

text \<open>
  \<^verbatim>\<open>str.replace(old, new)\<close>. With a non-empty \<open>old\<close> the string is scanned from the
  left and every non-overlapping occurrence is replaced. With an empty \<open>old\<close> CPython
  takes a separate path that interleaves \<open>new\<close> with the characters of the string,
  starting with one copy of \<open>new\<close> and putting another after every character.
\<close>

function replace_scan :: "string \<Rightarrow> string \<Rightarrow> string \<Rightarrow> string" where
  "replace_scan old new s =
     (if old = [] \<or> s = [] then s
      else if take (length old) s = old
           then new @ replace_scan old new (drop (length old) s)
           else hd s # replace_scan old new (tl s))"
  by pat_completeness auto
termination
  by (relation "measure (\<lambda>(old, new, s). length s)") auto

declare replace_scan.simps [simp del]

fun replace_interleave :: "string \<Rightarrow> string \<Rightarrow> string" where
  "replace_interleave new [] = new"
| "replace_interleave new (c # cs) = new @ c # replace_interleave new cs"

definition str_replace :: "string \<Rightarrow> string \<Rightarrow> string \<Rightarrow> string" where
  "str_replace s old new =
     (if old = [] then replace_interleave new s else replace_scan old new s)"

text \<open>\<^verbatim>\<open>replace_text\<close>: the replacement is done on the stem only.\<close>

definition replace_text :: "string \<Rightarrow> string \<Rightarrow> string \<Rightarrow> string" where
  "replace_text filename old_text new_text =
     (case splitext filename of (name, ext) \<Rightarrow>
        (let new_name = str_replace name old_text new_text in new_name @ ext))"


subsection \<open>Python exceptions\<close>

text \<open>
  An exception that leaves a function is a value: \<open>PyError cls\<close> carries the name of the
  exception class. The library functions \<^verbatim>\<open>re.sub\<close>, \<^verbatim>\<open>str.format\<close> and the argument
  parser are modelled on a fragment of their input language; \<open>OutsideFragment\<close> is the
  answer of the model on an input it does not cover, and nothing is stated about the
  program there.
\<close>

datatype error = PyError string | OutsideFragment

subsection \<open>re.sub on a fragment of the pattern language\<close>

text \<open>
  \<^verbatim>\<open>regex_replace\<close> calls \<^verbatim>\<open>re.sub(pattern, replacement, name)\<close>. The fragment of
  patterns: literal characters, \<^verbatim>\<open>.\<close>, the class \<^verbatim>\<open>\d\<close>, escaped punctuation, capture
  groups, alternation and the greedy quantifiers \<^verbatim>\<open>*\<close>, \<^verbatim>\<open>+\<close>, \<^verbatim>\<open>?\<close> on operands that
  cannot match the empty string. Groups are numbered by their opening parenthesis,
  from 1.
\<close>

abbreviation bslash :: char where "bslash \<equiv> CHR 0x5C"

datatype regex =
    REmpty
  | RChar char
  | RDigit
  | RAny
  | RSeq regex regex
  | RAlt regex regex
  | RStar regex
  | RPlus regex
  | ROpt regex
  | RGroup nat regex

fun nullable :: "regex \<Rightarrow> bool" where
  "nullable REmpty = True"
| "nullable (RChar c) = False"
| "nullable RDigit = False"
| "nullable RAny = False"
| "nullable (RSeq a b) = (nullable a \<and> nullable b)"
| "nullable (RAlt a b) = (nullable a \<or> nullable b)"
| "nullable (RStar a) = True"
| "nullable (RPlus a) = nullable a"
| "nullable (ROpt a) = True"
| "nullable (RGroup i a) = nullable a"

fun seq_of :: "regex list \<Rightarrow> regex" where
  "seq_of [] = REmpty"
| "seq_of [a] = a"
| "seq_of (a # b # bs) = RSeq a (seq_of (b # bs))"

fun alt_of :: "regex list \<Rightarrow> regex" where
  "alt_of [] = REmpty"
| "alt_of [a] = a"
| "alt_of (a # b # bs) = RAlt a (alt_of (b # bs))"

text \<open>
  The pattern parser keeps a stack of open groups. A frame holds the number of its
  group (0 for the whole pattern), the alternatives already closed by \<^verbatim>\<open>|\<close>, the
  atoms of the current alternative (latest first) and whether the latest atom already
  carries a quantifier.
\<close>

type_synonym frame = "nat \<times> regex list \<times> regex list \<times> bool"

definition close_frame :: "frame \<Rightarrow> regex" where
  "close_frame fr =
     (case fr of (i, alts, atoms, q) \<Rightarrow> alt_of (alts @ [seq_of (rev atoms)]))"

definition push_atom :: "regex \<Rightarrow> frame \<Rightarrow> frame" where
  "push_atom a fr = (case fr of (i, alts, atoms, q) \<Rightarrow> (i, alts, a # atoms, False))"

definition quantify :: "(regex \<Rightarrow> regex) \<Rightarrow> frame \<Rightarrow> error + frame" where
  "quantify f fr =
     (case fr of (i, alts, atoms, q) \<Rightarrow>
        (case atoms of
           [] \<Rightarrow> Inl (PyError ''re.error'')
         | a # rest \<Rightarrow>
             if q \<or> nullable a then Inl OutsideFragment
             else Inr (i, alts, f a # rest, True)))"

definition escapable :: "char \<Rightarrow> bool" where
  "escapable c = (c \<in> set ''.()*+?|[]{}^$-_/ '' \<or> c = bslash)"

fun parse_re :: "string \<Rightarrow> frame list \<Rightarrow> nat \<Rightarrow> error + (regex \<times> nat)" where
  "parse_re [] frames ngroups =
     (case frames of
        [fr0] \<Rightarrow> Inr (close_frame fr0, ngroups)
      | _ \<Rightarrow> Inl (PyError ''re.error''))"
| "parse_re (c # cs) frames ngroups =
     (case frames of
        [] \<Rightarrow> Inl (PyError ''re.error'')
      | fr # outer \<Rightarrow>
          if c = CHR ''('' then
            (if (case cs of x # xs \<Rightarrow> x = CHR ''?'' | [] \<Rightarrow> False) then Inl OutsideFragment
             else parse_re cs ((Suc ngroups, [], [], False) # fr # outer) (Suc ngroups))
          else if c = CHR '')'' then
            (case outer of
               [] \<Rightarrow> Inl (PyError ''re.error'')
             | parent # outer' \<Rightarrow>
                 parse_re cs (push_atom (RGroup (fst fr) (close_frame fr)) parent # outer') ngroups)
          else if c = CHR ''|'' then
            (case fr of (i, alts, atoms, q) \<Rightarrow>
               parse_re cs ((i, alts @ [seq_of (rev atoms)], [], False) # outer) ngroups)
          else if c = CHR ''*'' then
            (case quantify RStar fr of Inl e \<Rightarrow> Inl e | Inr fr' \<Rightarrow> parse_re cs (fr' # outer) ngroups)
          else if c = CHR ''+'' then
            (case quantify RPlus fr of Inl e \<Rightarrow> Inl e | Inr fr' \<Rightarrow> parse_re cs (fr' # outer) ngroups)
          else if c = CHR ''?'' then
            (case quantify ROpt fr of Inl e \<Rightarrow> Inl e | Inr fr' \<Rightarrow> parse_re cs (fr' # outer) ngroups)
          else if c = CHR ''.'' then parse_re cs (push_atom RAny fr # outer) ngroups
          else if c = bslash then
            (case cs of
               [] \<Rightarrow> Inl (PyError ''re.error'')
             | x # xs \<Rightarrow>
                 if x = CHR ''d'' then parse_re xs (push_atom RDigit fr # outer) ngroups
                 else if escapable x then parse_re xs (push_atom (RChar x) fr # outer) ngroups
                 else Inl OutsideFragment)
          else if c \<in> set ''[]{}^$'' then Inl OutsideFragment
          else parse_re cs (push_atom (RChar c) fr # outer) ngroups)"

definition re_compile :: "string \<Rightarrow> error + (regex \<times> nat)" where
  "re_compile pattern = parse_re pattern [(0, [], [], False)] 0"

text \<open>
  The matcher is a backtracking matcher in continuation-passing style: alternatives
  are tried from the left and quantifiers are greedy. The captures are a map from
  group numbers to the text the group matched last.
\<close>

type_synonym caps = "nat \<rightharpoonup> string"
type_synonym mresult = "(caps \<times> string) option"
type_synonym cont = "string \<Rightarrow> caps \<Rightarrow> mresult"

definition is_digit :: "char \<Rightarrow> bool" where
  "is_digit c = (c \<in> set ''0123456789'')"

fun star_loop :: "nat \<Rightarrow> (string \<Rightarrow> caps \<Rightarrow> cont \<Rightarrow> mresult) \<Rightarrow> string \<Rightarrow> caps \<Rightarrow> cont \<Rightarrow> mresult" where
  "star_loop 0 m s c k = k s c"
| "star_loop (Suc n) m s c k =
     (case m s c (\<lambda>s' c'. if length s' < length s then star_loop n m s' c' k else None) of
        Some r \<Rightarrow> Some r
      | None \<Rightarrow> k s c)"

primrec rmatch :: "regex \<Rightarrow> string \<Rightarrow> caps \<Rightarrow> cont \<Rightarrow> mresult" where
  "rmatch REmpty = (\<lambda>s c k. k s c)"
| "rmatch (RChar x) =
     (\<lambda>s c k. case s of [] \<Rightarrow> None | y # ys \<Rightarrow> if y = x then k ys c else None)"
| "rmatch RDigit =
     (\<lambda>s c k. case s of [] \<Rightarrow> None | y # ys \<Rightarrow> if is_digit y then k ys c else None)"
| "rmatch RAny =
     (\<lambda>s c k. case s of [] \<Rightarrow> None | y # ys \<Rightarrow> if y \<noteq> CHR 0x0A then k ys c else None)"
| "rmatch (RSeq a b) = (\<lambda>s c k. rmatch a s c (\<lambda>s' c'. rmatch b s' c' k))"
| "rmatch (RAlt a b) =
     (\<lambda>s c k. case rmatch a s c k of Some r \<Rightarrow> Some r | None \<Rightarrow> rmatch b s c k)"
| "rmatch (RStar a) = (\<lambda>s c k. star_loop (length s) (rmatch a) s c k)"
| "rmatch (RPlus a) =
     (\<lambda>s c k. rmatch a s c (\<lambda>s' c'. star_loop (length s') (rmatch a) s' c' k))"
| "rmatch (ROpt a) =
     (\<lambda>s c k. case rmatch a s c k of Some r \<Rightarrow> Some r | None \<Rightarrow> k s c)"
| "rmatch (RGroup i a) =
     (\<lambda>s c k. rmatch a s c (\<lambda>s' c'. k s' (c'(i \<mapsto> take (length s - length s') s))))"

text \<open>
  A match attempt at the start of \<open>s\<close>. After an empty match the engine sets
  \<^verbatim>\<open>must_advance\<close> and the next match at the same position has to be non-empty.
\<close>

definition match_at :: "regex \<Rightarrow> bool \<Rightarrow> string \<Rightarrow> mresult" where
  "match_at r must_advance s =
     rmatch r s Map.empty
       (\<lambda>s' c'. if must_advance \<and> length s' = length s then None else Some (c', s'))"

text \<open>
  The replacement template. Group references are written \<^verbatim>\<open>\1\<close> to \<^verbatim>\<open>\9\<close>; a
  doubled backslash is a backslash; every other character, the dollar sign included,
  stands for itself. Longer escapes (\<^verbatim>\<open>\g<1>\<close>, \<^verbatim>\<open>\n\<close>, octal, two-digit groups) are
  outside the fragment.
\<close>

datatype titem = TLit char | TGroup nat

definition digit_val :: "char \<Rightarrow> nat" where
  "digit_val c = of_char c - 48"

fun parse_template :: "nat \<Rightarrow> string \<Rightarrow> error + titem list" where
  "parse_template ngroups [] = Inr []"
| "parse_template ngroups (c # cs) =
     (if c \<noteq> bslash then
        (case parse_template ngroups cs of Inl e \<Rightarrow> Inl e | Inr t \<Rightarrow> Inr (TLit c # t))
      else
        (case cs of
           [] \<Rightarrow> Inl (PyError ''re.error'')
         | x # xs \<Rightarrow>
             if x = bslash then
               (case parse_template ngroups xs of Inl e \<Rightarrow> Inl e | Inr t \<Rightarrow> Inr (TLit bslash # t))
             else if is_digit x \<and> x \<noteq> CHR ''0'' \<and> \<not> (case xs of y # ys \<Rightarrow> is_digit y | [] \<Rightarrow> False) then
               (if digit_val x \<le> ngroups then
                  (case parse_template ngroups xs of Inl e \<Rightarrow> Inl e | Inr t \<Rightarrow> Inr (TGroup (digit_val x) # t))
                else Inl (PyError ''re.error''))
             else Inl OutsideFragment))"

fun expand :: "titem list \<Rightarrow> caps \<Rightarrow> string" where
  "expand [] c = []"
| "expand (TLit x # t) c = x # expand t c"
| "expand (TGroup i # t) c = (case c i of Some g \<Rightarrow> g | None \<Rightarrow> []) @ expand t c"

text \<open>
  The substitution loop of \<^verbatim>\<open>re.sub\<close>: search from the left, copy the text before a
  match, put the expanded template for the match, go on behind it. \<open>skip\<close> counts
  the characters of the last match that are still to be passed over.
\<close>

fun sub_scan :: "regex \<Rightarrow> titem list \<Rightarrow> nat \<Rightarrow> string \<Rightarrow> string" where
  "sub_scan r t (Suc k) [] = []"
| "sub_scan r t (Suc k) (c # cs) = sub_scan r t k cs"
| "sub_scan r t 0 s =
     (case match_at r False s of
        None \<Rightarrow> (case s of [] \<Rightarrow> [] | c # cs \<Rightarrow> c # sub_scan r t 0 cs)
      | Some (cp, rest) \<Rightarrow>
          if length rest < length s then
            expand t cp @ (case s of [] \<Rightarrow> [] | c # cs \<Rightarrow> sub_scan r t (length s - length rest - 1) cs)
          else
            expand t cp @
            (case match_at r True s of
               None \<Rightarrow> (case s of [] \<Rightarrow> [] | c # cs \<Rightarrow> c # sub_scan r t 0 cs)
             | Some (cp', rest') \<Rightarrow>
                 expand t cp' @
                 (case s of [] \<Rightarrow> [] | c # cs \<Rightarrow> sub_scan r t (length s - length rest' - 1) cs)))"

definition re_sub :: "string \<Rightarrow> string \<Rightarrow> string \<Rightarrow> error + string" where
  "re_sub pattern repl s =
     (case re_compile pattern of
        Inl e \<Rightarrow> Inl e
      | Inr (r, ngroups) \<Rightarrow>
          (case parse_template ngroups repl of
             Inl e \<Rightarrow> Inl e
           | Inr t \<Rightarrow> Inr (sub_scan r t 0 s)))"

text \<open>\<^verbatim>\<open>regex_replace\<close>: the substitution is done on the stem only.\<close>

definition regex_replace :: "string \<Rightarrow> string \<Rightarrow> string \<Rightarrow> error + string" where
  "regex_replace filename pattern replacement =
     (case splitext filename of (name, ext) \<Rightarrow>
        (case re_sub pattern replacement name of
           Inl e \<Rightarrow> Inl e
         | Inr new_name \<Rightarrow> Inr (new_name @ ext)))"

subsection \<open>str.format on a fragment of the template language\<close>

text \<open>
  Pattern mode calls \<^verbatim>\<open>pattern_str.format(name=..., ext=..., index=..., counter=...)\<close>.
  The fragment: literal text, the escapes \<^verbatim>\<open>{{\<close> and \<^verbatim>\<open>}}\<close>, and replacement fields
  \<^verbatim>\<open>{field}\<close> or \<^verbatim>\<open>{field:spec}\<close> without conversion, attribute or index access.
  For an integer the format specs \<^verbatim>\<open>d\<close>, \<^verbatim>\<open>5d\<close> and \<^verbatim>\<open>03d\<close> are covered, for a string
  the empty spec and \<^verbatim>\<open>s\<close>.
\<close>

datatype pyval = PStr string | PInt nat

function digits_of :: "nat \<Rightarrow> string" where
  "digits_of n =
     (if n < 10 then [char_of (48 + n)]
      else digits_of (n div 10) @ [char_of (48 + n mod 10)])"
  by pat_completeness auto
termination
  by (relation "measure id") auto

declare digits_of.simps [simp del]

fun nat_of_digits :: "string \<Rightarrow> nat \<Rightarrow> nat" where
  "nat_of_digits [] acc = acc"
| "nat_of_digits (c # cs) acc = nat_of_digits cs (10 * acc + digit_val c)"

definition format_value :: "pyval \<Rightarrow> string \<Rightarrow> error + string" where
  "format_value v spec =
     (case v of
        PStr s \<Rightarrow> if spec = [] \<or> spec = ''s'' then Inr s else Inl OutsideFragment
      | PInt n \<Rightarrow>
          (let zero = (spec \<noteq> [] \<and> hd spec = CHR ''0'');
               rest = (if zero then tl spec else spec);
               width = nat_of_digits (takeWhile is_digit rest) 0;
               ty = dropWhile is_digit rest;
               ds = digits_of n
           in if ty \<noteq> [] \<and> ty \<noteq> ''d'' then Inl OutsideFragment
              else Inr (replicate (width - length ds) (if zero then CHR ''0'' else CHR '' '') @ ds)))"

definition format_field :: "(string \<rightharpoonup> pyval) \<Rightarrow> string \<Rightarrow> error + string" where
  "format_field fields body =
     (if \<exists>c \<in> set body. c \<in> set ''{![].'' then Inl OutsideFragment
      else
        (let field_name = takeWhile (\<lambda>c. c \<noteq> CHR '':'') body;
             spec = drop (Suc (length field_name)) body
         in case fields field_name of
              Some v \<Rightarrow> format_value v spec
            | None \<Rightarrow>
                if list_all is_digit field_name then Inl (PyError ''IndexError'')
                else Inl (PyError ''KeyError'')))"

function str_format :: "string \<Rightarrow> (string \<rightharpoonup> pyval) \<Rightarrow> error + string" where
  "str_format [] fields = Inr []"
| "str_format (c # cs) fields =
     (if c = CHR ''{'' then
        (if cs \<noteq> [] \<and> hd cs = CHR ''{'' then
           (case str_format (tl cs) fields of Inl e \<Rightarrow> Inl e | Inr t \<Rightarrow> Inr (CHR ''{'' # t))
         else
           (let body = takeWhile (\<lambda>x. x \<noteq> CHR ''}'') cs;
                rest = dropWhile (\<lambda>x. x \<noteq> CHR ''}'') cs
            in if rest = [] then Inl (PyError ''ValueError'')
               else
                 (case format_field fields body of
                    Inl e \<Rightarrow> Inl e
                  | Inr v \<Rightarrow>
                      (case str_format (tl rest) fields of
                         Inl e \<Rightarrow> Inl e
                       | Inr t \<Rightarrow> Inr (v @ t)))))
      else if c = CHR ''}'' then
        (if cs \<noteq> [] \<and> hd cs = CHR ''}'' then
           (case str_format (tl cs) fields of Inl e \<Rightarrow> Inl e | Inr t \<Rightarrow> Inr (CHR ''}'' # t))
         else Inl (PyError ''ValueError''))
      else
        (case str_format cs fields of Inl e \<Rightarrow> Inl e | Inr t \<Rightarrow> Inr (c # t)))"
  by pat_completeness auto
termination
proof (relation "measure (\<lambda>(s, fields). length s)")
  fix c :: char and cs :: string and x xa :: string
  assume "xa = dropWhile (\<lambda>x. x \<noteq> CHR ''}'') cs"
  then have "length (tl xa) \<le> length cs"
    using length_dropWhile_le [of "\<lambda>x. x \<noteq> CHR ''}''" cs] by simp
  then show "((tl xa, fields), c # cs, fields) \<in> measure (\<lambda>(s, fields). length s)" for fields :: "string \<rightharpoonup> pyval"
    by simp
qed auto

declare str_format.simps [simp del]

text \<open>
  \<^verbatim>\<open>rename_with_pattern\<close> passes only \<open>name\<close> and \<open>ext\<close>; \<^verbatim>\<open>bulk_rename\<close> does not
  call it and formats the pattern itself, with all four fields.
\<close>

definition rename_with_pattern :: "string \<Rightarrow> string \<Rightarrow> error + string" where
  "rename_with_pattern filename pattern =
     (case splitext filename of (name, ext) \<Rightarrow>
        str_format pattern [''name'' \<mapsto> PStr name, ''ext'' \<mapsto> PStr ext])"

subsection \<open>The file system\<close>

text \<open>
  The file system as the program sees it through \<^verbatim>\<open>os\<close> and \<^verbatim>\<open>os.path\<close>. \<open>canon\<close>
  sends a path string to the location it denotes (two strings may denote one
  location), \<open>nodes\<close> says what is at a location, \<open>listing\<close> is what
  \<^verbatim>\<open>os.listdir\<close> returns, and \<open>refuse\<close> stands for every reason besides a missing
  source for which the operating system rejects a rename (permissions, a missing
  parent directory, another device): it gives the text of the exception.
\<close>

datatype node = RegularFile nat | Directory | Special

record world =
  nodes :: "string \<rightharpoonup> node"
  canon :: "string \<Rightarrow> string"
  listing :: "string \<Rightarrow> string list"
  refuse :: "string \<Rightarrow> string \<Rightarrow> string option"

definition path_isdir :: "world \<Rightarrow> string \<Rightarrow> bool" where
  "path_isdir w p = (nodes w (canon w p) = Some Directory)"

definition path_isfile :: "world \<Rightarrow> string \<Rightarrow> bool" where
  "path_isfile w p = (case nodes w (canon w p) of Some (RegularFile c) \<Rightarrow> True | _ \<Rightarrow> False)"

definition path_exists :: "world \<Rightarrow> string \<Rightarrow> bool" where
  "path_exists w p = (nodes w (canon w p) \<noteq> None)"

text \<open>\<^verbatim>\<open>os.path.join(a, b)\<close> on POSIX.\<close>

definition path_join :: "string \<Rightarrow> string \<Rightarrow> string" where
  "path_join a b =
     (if b \<noteq> [] \<and> hd b = sep then b
      else if a = [] \<or> last a = sep then a @ b
      else a @ sep # b)"

text \<open>\<^verbatim>\<open>os.rename(src, dst)\<close>: the node moves from the source to the target location.\<close>

definition os_rename :: "world \<Rightarrow> string \<Rightarrow> string \<Rightarrow> string + world" where
  "os_rename w src dst =
     (case nodes w (canon w src) of
        None \<Rightarrow> Inl ''FileNotFoundError''
      | Some n \<Rightarrow>
          (case refuse w src dst of
             Some reason \<Rightarrow> Inl reason
           | None \<Rightarrow> Inr (w\<lparr>nodes := ((nodes w)(canon w src := None))(canon w dst \<mapsto> n)\<rparr>)))"

subsection \<open>bulk\_rename\<close>

text \<open>
  What the program prints, one constructor for each \<^verbatim>\<open>print\<close> of \<^verbatim>\<open>bulk_rename\<close>:
  the error for a path that is not a directory, the note that the directory has no
  files, the error for an unknown mode, the note that nothing needs renaming, the
  preview, the prompt of \<^verbatim>\<open>input\<close>, the cancellation, the error line for a target
  that already exists, the error line for a rename that raised, and the final line
  with the two counters.
\<close>

datatype msg =
    ErrNotDirectory string
  | NoFiles string
  | ErrUnknownMode string
  | NoChanges
  | Preview "(string \<times> string) list"
  | Prompt
  | Cancelled
  | ErrTargetExists string string
  | ErrRenameFailed string string string
  | Summary nat nat

text \<open>The keyword arguments; \<open>None\<close> is an absent key, read with \<^verbatim>\<open>kwargs.get\<close>.\<close>

record kwargs =
  kw_prefix :: "string option"
  kw_suffix :: "string option"
  kw_old_text :: "string option"
  kw_new_text :: "string option"
  kw_pattern :: "string option"
  kw_replacement :: "string option"
  kw_force :: "bool option"

definition no_kwargs :: kwargs where
  "no_kwargs = \<lparr>kw_prefix = None, kw_suffix = None, kw_old_text = None, kw_new_text = None,
     kw_pattern = None, kw_replacement = None, kw_force = None\<rparr>"

definition kw_get :: "'a option \<Rightarrow> 'a \<Rightarrow> 'a" where
  "kw_get v dflt = (case v of Some x \<Rightarrow> x | None \<Rightarrow> dflt)"

text \<open>The keyword arguments of the \<^verbatim>\<open>format\<close> call of pattern mode.\<close>

definition pattern_fields :: "string \<Rightarrow> nat \<Rightarrow> nat \<Rightarrow> (string \<rightharpoonup> pyval)" where
  "pattern_fields filename index counter =
     [''name'' \<mapsto> PStr (fst (splitext filename)),
      ''ext'' \<mapsto> PStr (snd (splitext filename)),
      ''index'' \<mapsto> PInt index,
      ''counter'' \<mapsto> PInt counter]"

text \<open>
  The \<^verbatim>\<open>if/elif\<close> chain of one iteration of the planning loop. The result is the new
  name with the value of \<open>counter\<close> after the iteration, or \<open>None\<close> for the
  \<^verbatim>\<open>else\<close> branch (unknown mode), which prints and returns from \<^verbatim>\<open>bulk_rename\<close>.
\<close>

definition new_name_for :: "string \<Rightarrow> kwargs \<Rightarrow> nat \<Rightarrow> nat \<Rightarrow> string \<Rightarrow> error + (string \<times> nat) option" where
  "new_name_for mode kw index counter filename =
     (if mode = ''prefix'' then
        Inr (Some (add_prefix filename (kw_get (kw_prefix kw) []), counter))
      else if mode = ''suffix'' then
        Inr (Some (add_suffix filename (kw_get (kw_suffix kw) []), counter))
      else if mode = ''replace'' then
        Inr (Some (replace_text filename (kw_get (kw_old_text kw) []) (kw_get (kw_new_text kw) []), counter))
      else if mode = ''regex'' then
        (case regex_replace filename (kw_get (kw_pattern kw) []) (kw_get (kw_replacement kw) []) of
           Inl e \<Rightarrow> Inl e
         | Inr new_name \<Rightarrow> Inr (Some (new_name, counter)))
      else if mode = ''pattern'' then
        (let pattern_str = kw_get (kw_pattern kw) ''{name}{ext}'' in
         case str_format pattern_str (pattern_fields filename index counter) of
           Inl e \<Rightarrow> Inl e
         | Inr new_name \<Rightarrow> Inr (Some (new_name, counter + 1)))
      else Inr None)"

text \<open>
  The planning loop \<^verbatim>\<open>for index, filename in enumerate(files, 1)\<close>, with the state it
  carries: \<open>counter\<close> and the list \<open>changes\<close>.
\<close>

definition enumerate1 :: "string list \<Rightarrow> (nat \<times> string) list" where
  "enumerate1 files = zip [1 ..< Suc (length files)] files"

fun collect_changes ::
  "string \<Rightarrow> kwargs \<Rightarrow> (nat \<times> string) list \<Rightarrow> nat \<Rightarrow> (string \<times> string) list \<Rightarrow>
   error + (nat \<times> (string \<times> string) list) option" where
  "collect_changes mode kw [] counter changes = Inr (Some (counter, changes))"
| "collect_changes mode kw ((index, filename) # rest) counter changes =
     (case new_name_for mode kw index counter filename of
        Inl e \<Rightarrow> Inl e
      | Inr None \<Rightarrow> Inr None
      | Inr (Some (new_name, counter')) \<Rightarrow>
          if new_name = filename then collect_changes mode kw rest counter' changes
          else collect_changes mode kw rest counter' (changes @ [(filename, new_name)]))"

text \<open>The state of the apply loop: the file system, the two counters, the lines printed.\<close>

record apply_state =
  fs :: world
  success_count :: nat
  error_count :: nat
  printed :: "msg list"

definition apply_one :: "string \<Rightarrow> string \<times> string \<Rightarrow> apply_state \<Rightarrow> apply_state" where
  "apply_one directory change st =
     (case change of (old_name, new_name) \<Rightarrow>
        (let old_path = path_join directory old_name;
             new_path = path_join directory new_name
         in if path_exists (fs st) new_path then
              st\<lparr>error_count := error_count st + 1,
                 printed := printed st @ [ErrTargetExists old_name new_name]\<rparr>
            else
              (case os_rename (fs st) old_path new_path of
                 Inr w' \<Rightarrow> st\<lparr>fs := w', success_count := success_count st + 1\<rparr>
               | Inl e \<Rightarrow>
                   st\<lparr>error_count := error_count st + 1,
                      printed := printed st @ [ErrRenameFailed old_name new_name e]\<rparr>)))"

fun apply_changes :: "string \<Rightarrow> (string \<times> string) list \<Rightarrow> apply_state \<Rightarrow> apply_state" where
  "apply_changes directory [] st = st"
| "apply_changes directory (change # rest) st =
     apply_changes directory rest (apply_one directory change st)"

text \<open>
  \<^verbatim>\<open>str.strip()\<close> and \<^verbatim>\<open>str.lower()\<close> on code points below 256.
\<close>

definition is_space :: "char \<Rightarrow> bool" where
  "is_space c =
     (let n = (of_char c :: nat)
      in (9 \<le> n \<and> n \<le> 13) \<or> (28 \<le> n \<and> n \<le> 32) \<or> n = 133 \<or> n = 160)"

definition strip :: "string \<Rightarrow> string" where
  "strip s = rev (dropWhile is_space (rev (dropWhile is_space s)))"

definition lower_char :: "char \<Rightarrow> char" where
  "lower_char c =
     (let n = (of_char c :: nat)
      in if (65 \<le> n \<and> n \<le> 90) \<or> (192 \<le> n \<and> n \<le> 222 \<and> n \<noteq> 215) then char_of (n + 32) else c)"

definition lower :: "string \<Rightarrow> string" where
  "lower s = map lower_char s"

text \<open>
  A run of \<^verbatim>\<open>bulk_rename\<close>: the exception that left it, if any, the lines printed and
  the file system afterwards. \<open>stdin\<close> is the line that \<^verbatim>\<open>input\<close> returns, \<open>None\<close>
  at the end of input, where \<^verbatim>\<open>input\<close> raises \<^verbatim>\<open>EOFError\<close>.
\<close>

record run =
  raised :: "error option"
  stdout :: "msg list"
  world_after :: world

definition regular_files :: "world \<Rightarrow> string \<Rightarrow> string list" where
  "regular_files w directory =
     filter (\<lambda>f. path_isfile w (path_join directory f)) (listing w directory)"

definition execute :: "world \<Rightarrow> string \<Rightarrow> (string \<times> string) list \<Rightarrow> msg list \<Rightarrow> run" where
  "execute w directory changes shown =
     (let st = apply_changes directory changes
                 \<lparr>fs = w, success_count = 0, error_count = 0, printed = shown\<rparr>
      in \<lparr>raised = None,
          stdout = printed st @ [Summary (success_count st) (error_count st)],
          world_after = fs st\<rparr>)"

definition bulk_rename :: "world \<Rightarrow> string option \<Rightarrow> string \<Rightarrow> string \<Rightarrow> kwargs \<Rightarrow> run" where
  "bulk_rename w stdin directory mode kw =
     (if \<not> path_isdir w directory then
        \<lparr>raised = None, stdout = [ErrNotDirectory directory], world_after = w\<rparr>
      else
        (let files = regular_files w directory
         in if files = [] then
              \<lparr>raised = None, stdout = [NoFiles directory], world_after = w\<rparr>
            else
              (case collect_changes mode kw (enumerate1 (sort files)) 1 [] of
                 Inl e \<Rightarrow> \<lparr>raised = Some e, stdout = [], world_after = w\<rparr>
               | Inr None \<Rightarrow> \<lparr>raised = None, stdout = [ErrUnknownMode mode], world_after = w\<rparr>
               | Inr (Some (counter, changes)) \<Rightarrow>
                   if changes = [] then
                     \<lparr>raised = None, stdout = [NoChanges], world_after = w\<rparr>
                   else if \<not> kw_get (kw_force kw) False then
                     (case stdin of
                        None \<Rightarrow>
                          \<lparr>raised = Some (PyError ''EOFError''),
                           stdout = [Preview changes, Prompt], world_after = w\<rparr>
                      | Some line \<Rightarrow>
                          (let response = lower (strip line)
                           in if response \<noteq> ''y'' then
                                \<lparr>raised = None,
                                 stdout = [Preview changes, Prompt, Cancelled], world_after = w\<rparr>
                              else execute w directory changes [Preview changes, Prompt]))
                   else execute w directory changes [Preview changes])))"

subsection \<open>main\<close>

text \<open>
  The command line after the program name. The argument parser is modelled on
  command lines whose only tokens with a leading dash are \<^verbatim>\<open>-f\<close> and \<^verbatim>\<open>--force\<close>.
  It ends the process with status 2 on a usage error: a missing directory, a mode
  that is not one of the five choices, the force flag in front of the mode, or the
  wrong number of arguments for the mode.
\<close>

datatype parsed =
    Unmodelled
  | UsageError
  | Namespace string "string option" "string list" bool

definition modes :: "string list" where
  "modes = [''prefix'', ''suffix'', ''replace'', ''regex'', ''pattern'']"

definition arity :: "string \<Rightarrow> nat" where
  "arity mode = (if mode = ''replace'' \<or> mode = ''regex'' then 2 else 1)"

definition is_force_flag :: "string \<Rightarrow> bool" where
  "is_force_flag t = (t = ''-f'' \<or> t = ''--force'')"

definition parse_args :: "string list \<Rightarrow> parsed" where
  "parse_args argv =
     (if \<exists>t \<in> set argv. t \<noteq> [] \<and> hd t = CHR ''-'' \<and> \<not> is_force_flag t then Unmodelled
      else
        (case argv of
           [] \<Rightarrow> UsageError
         | directory # rest \<Rightarrow>
             if is_force_flag directory then UsageError
             else
               (case rest of
                  [] \<Rightarrow> Namespace directory None [] False
                | mode # args \<Rightarrow>
                    if mode \<notin> set modes then UsageError
                    else
                      (let positional = filter (\<lambda>t. \<not> is_force_flag t) args;
                           force = (\<exists>t \<in> set args. is_force_flag t)
                       in if length positional \<noteq> arity mode then UsageError
                          else Namespace directory (Some mode) positional force))))"

text \<open>The dictionary \<^verbatim>\<open>kwargs\<close> that \<^verbatim>\<open>main\<close> builds from the parsed arguments.\<close>

definition kwargs_of :: "string \<Rightarrow> string list \<Rightarrow> bool \<Rightarrow> kwargs" where
  "kwargs_of mode args force =
     (let kw =
        (if mode = ''prefix'' then no_kwargs\<lparr>kw_prefix := Some (args ! 0)\<rparr>
         else if mode = ''suffix'' then no_kwargs\<lparr>kw_suffix := Some (args ! 0)\<rparr>
         else if mode = ''replace'' then
           no_kwargs\<lparr>kw_old_text := Some (args ! 0), kw_new_text := Some (args ! 1)\<rparr>
         else if mode = ''regex'' then
           no_kwargs\<lparr>kw_pattern := Some (args ! 0), kw_replacement := Some (args ! 1)\<rparr>
         else if mode = ''pattern'' then no_kwargs\<lparr>kw_pattern := Some (args ! 0)\<rparr>
         else no_kwargs)
      in kw\<lparr>kw_force := Some force\<rparr>)"

text \<open>
  The exit status of the process: 2 from the argument parser, 1 from
  \<^verbatim>\<open>sys.exit(1)\<close> when no mode is given, 1 when an exception leaves \<^verbatim>\<open>main\<close>, and 0
  when \<^verbatim>\<open>main\<close> returns. \<open>None\<close> where the model does not cover the input.
\<close>

definition main :: "world \<Rightarrow> string option \<Rightarrow> string list \<Rightarrow> nat option \<times> run" where
  "main w stdin argv =
     (let idle = \<lparr>raised = None, stdout = [], world_after = w\<rparr>
      in case parse_args argv of
           Unmodelled \<Rightarrow> (None, idle)
         | UsageError \<Rightarrow> (Some 2, idle)
         | Namespace directory None args force \<Rightarrow> (Some 1, idle)
         | Namespace directory (Some mode) args force \<Rightarrow>
             (let r = bulk_rename w stdin directory mode (kwargs_of mode args force)
              in case raised r of
                   None \<Rightarrow> (Some 0, r)
                 | Some (PyError cls) \<Rightarrow> (Some 1, r)
                 | Some OutsideFragment \<Rightarrow> (None, r)))"

subsection \<open>A directory for the examples\<close>

text \<open>
  The directory \<^verbatim>\<open>d\<close> of the specification's example: it holds \<^verbatim>\<open>a.txt\<close>, and
  \<^verbatim>\<open>x_a.txt\<close> exists before the run. Path strings denote themselves and the operating
  system refuses nothing.
\<close>

definition example_world :: world where
  "example_world =
     \<lparr>nodes = [''d'' \<mapsto> Directory, ''d/a.txt'' \<mapsto> RegularFile 1, ''d/x_a.txt'' \<mapsto> RegularFile 2],
      canon = (\<lambda>p. p),
      listing = (\<lambda>d. if d = ''d'' then [''x_a.txt'', ''a.txt''] else []),
      refuse = (\<lambda>src dst. None)\<rparr>"

section \<open>Properties\<close>

subsection \<open>Facts about rfind and splitext\<close>



lemma rfind_neg_iff: "rfind c p < 0 \<longleftrightarrow> c \<notin> set p"
  by (induction p) (auto simp: Let_def)








lemma rfind_head_only: "c \<notin> set rest \<Longrightarrow> rfind c (c # rest) = 0"
  using rfind_neg_iff [of c rest] by (simp add: Let_def)

lemma replace_interleave_concat:
  "replace_interleave new s = concat (map (\<lambda>c. new @ [c]) s) @ new"
  by (induction s) simp_all

lemmas splitext_eval = splitext_def Let_def splitext_loop.simps

lemmas re_eval = regex_replace_def re_sub_def re_compile_def splitext_eval
  match_at_def close_frame_def push_atom_def quantify_def escapable_def is_digit_def digit_val_def

subsection \<open>The transforms\<close>




text \<open>
  C10: a filename that begins with a dot and has no other dot is split into the whole
  name as stem and the empty extension; so prefix mode puts the prefix in front of the
  leading dot and suffix mode puts the suffix behind the whole name.
\<close>

theorem dotfile_whole_name_is_stem:
  assumes "extsep \<notin> set rest"
  shows "splitext (extsep # rest) = (extsep # rest, []) \<and>
         add_prefix (extsep # rest) prefix = prefix @ extsep # rest \<and>
         add_suffix (extsep # rest) suffix = (extsep # rest) @ suffix"
proof -
  have d: "rfind extsep (extsep # rest) = 0" using assms by (rule rfind_head_only)
  have "splitext (extsep # rest) = (extsep # rest, [])"
    unfolding splitext_def Let_def d by (simp add: splitext_loop.simps)
  then show ?thesis by (simp add: add_prefix_def add_suffix_def)
qed

theorem dotfile_whole_name_is_stem_witness:
  "splitext ''.bashrc'' = (''.bashrc'', []) \<and>
   add_prefix ''.bashrc'' ''old_'' = ''old_.bashrc'' \<and>
   add_suffix ''.bashrc'' ''_old'' = ''.bashrc_old''"
proof -
  have h: "extsep \<notin> set ''bashrc''" by simp
  show ?thesis
    using dotfile_whole_name_is_stem [OF h, of "''old_''" "''_old''"] by simp
qed

text \<open>
  C8: in replace mode with an empty \<open>old_text\<close> the new text is put in front of every
  character of the stem and once more at its end, and the extension that
  \<^const>\<open>splitext\<close> split off follows unchanged.
\<close>

theorem replace_empty_old_interleaves:
  "replace_text f [] new =
     concat (map (\<lambda>c. new @ [c]) (fst (splitext f))) @ new @ snd (splitext f)"
  by (cases "splitext f") (simp add: replace_text_def str_replace_def replace_interleave_concat)

text \<open>
  C4, as the specification states it: pattern \<^verbatim>\<open>IMG_(\d+)\<close> with replacement
  \<^verbatim>\<open>photo_$1\<close> on \<^verbatim>\<open>IMG_0012.jpg\<close> yields \<^verbatim>\<open>photo_0012.jpg\<close>. In the replacement
  template of \<^verbatim>\<open>re.sub\<close> the dollar sign is an ordinary character, so the result
  is another name.
\<close>

theorem regex_dollar_counterexample:
  "regex_replace ''IMG_0012.jpg'' (''IMG_('' @ bslash # ''d+)'') ''photo_$1''
     \<noteq> Inr ''photo_0012.jpg''"
  by (simp add: re_eval)

text \<open>
  C4, amended: in regex mode, pattern \<^verbatim>\<open>IMG_(\d+)\<close> on \<^verbatim>\<open>IMG_0012.jpg\<close> yields
  \<^verbatim>\<open>photo_0012.jpg\<close> with the replacement \<^verbatim>\<open>photo_\1\<close>, the backreference syntax of
  \<^verbatim>\<open>re.sub\<close>; with the replacement \<^verbatim>\<open>photo_$1\<close> it yields \<^verbatim>\<open>photo_$1.jpg\<close>.
\<close>

theorem regex_backreference_example:
  "new_name_for ''regex''
     (no_kwargs\<lparr>kw_pattern := Some (''IMG_('' @ bslash # ''d+)''),
                kw_replacement := Some (''photo_'' @ bslash # ''1'')\<rparr>) index counter ''IMG_0012.jpg''
     = Inr (Some (''photo_0012.jpg'', counter)) \<and>
   new_name_for ''regex''
     (no_kwargs\<lparr>kw_pattern := Some (''IMG_('' @ bslash # ''d+)''),
                kw_replacement := Some ''photo_$1''\<rparr>) index counter ''IMG_0012.jpg''
     = Inr (Some (''photo_$1.jpg'', counter))"
  by (simp add: new_name_for_def no_kwargs_def kw_get_def re_eval)


subsection \<open>Evaluation rules for the examples\<close>

lemmas world_eval = example_world_def path_isdir_def path_isfile_def path_exists_def
  path_join_def os_rename_def regular_files_def enumerate1_def

lemmas plan_eval = new_name_for_def no_kwargs_def kw_get_def add_prefix_def add_suffix_def
  replace_text_def str_replace_def splitext_eval

lemmas format_eval = str_format.simps format_field_def format_value_def digits_of.simps
  pattern_fields_def is_digit_def digit_val_def

lemmas run_eval = bulk_rename_def execute_def apply_one_def strip_def lower_def
  is_space_def lower_char_def

lemmas main_eval = main_def parse_args_def modes_def arity_def is_force_flag_def kwargs_of_def


subsection \<open>The planner\<close>

lemma collect_changes_no_noop:
  "collect_changes mode kw es counter changes = Inr (Some (c, plan)) \<Longrightarrow>
   (\<forall>(old_name, new_name) \<in> set changes. old_name \<noteq> new_name) \<Longrightarrow>
   (\<forall>(old_name, new_name) \<in> set plan. old_name \<noteq> new_name)"
proof (induction es arbitrary: counter changes)
  case Nil
  then show ?case by simp
next
  case (Cons e es)
  obtain index filename where e: "e = (index, filename)" by (cases e)
  from Cons.prems(1) obtain new_name counter' where
    step: "new_name_for mode kw index counter filename = Inr (Some (new_name, counter'))"
    by (auto simp: e split: sum.splits option.splits)
  show ?case
  proof (cases "new_name = filename")
    case True
    with Cons.prems step have "collect_changes mode kw es counter' changes = Inr (Some (c, plan))"
      by (simp add: e)
    then show ?thesis using Cons.prems(2) by (rule Cons.IH)
  next
    case False
    with Cons.prems step
    have "collect_changes mode kw es counter' (changes @ [(filename, new_name)]) = Inr (Some (c, plan))"
      by (simp add: e)
    moreover have "\<forall>(old_name, new_name) \<in> set (changes @ [(filename, new_name)]). old_name \<noteq> new_name"
      using Cons.prems(2) False by auto
    ultimately show ?thesis by (rule Cons.IH)
  qed
qed

text \<open>
  C6: for every directory listing and every mode, the plan that the planning loop
  produces from the sorted listing has no entry whose new name equals the old one.
\<close>

theorem plan_has_no_noop:
  assumes "collect_changes mode kw (enumerate1 (sort files)) 1 [] = Inr (Some (c, plan))"
    and "(old_name, new_name) \<in> set plan"
  shows "old_name \<noteq> new_name"
  using collect_changes_no_noop [OF assms(1)] assms(2) by auto

theorem plan_has_no_noop_witness:
  "collect_changes ''replace'' (no_kwargs\<lparr>kw_old_text := Some ''a'', kw_new_text := Some ''b''\<rparr>)
     (enumerate1 (sort [''c.txt'', ''a.txt''])) 1 [] = Inr (Some (1, [(''a.txt'', ''b.txt'')])) \<and>
   (''a.txt'', ''b.txt'') \<in> set [(''a.txt'', ''b.txt'')] \<and> ''a.txt'' \<noteq> ''b.txt''"
proof -
  have p: "collect_changes ''replace'' (no_kwargs\<lparr>kw_old_text := Some ''a'', kw_new_text := Some ''b''\<rparr>)
     (enumerate1 (sort [''c.txt'', ''a.txt''])) 1 [] = Inr (Some (1, [(''a.txt'', ''b.txt'')]))"
    by (simp add: enumerate1_def plan_eval replace_scan.simps)
  have m: "(''a.txt'', ''b.txt'') \<in> set [(''a.txt'', ''b.txt'')]" by simp
  from plan_has_no_noop [OF p m] p m show ?thesis by blast
qed






subsection \<open>The executor\<close>

lemma apply_changes_append:
  "apply_changes directory (xs @ ys) st = apply_changes directory ys (apply_changes directory xs st)"
  by (induction xs arbitrary: st) simp_all

text \<open>
  C1, as the specification states it: an entry whose target exists is recorded as
  skipped rather than as a failure. On the directory of the specification's own
  example, with prefix \<^verbatim>\<open>x_\<close> and the force flag, the entry for \<^verbatim>\<open>a.txt\<close> is not
  applied because \<^verbatim>\<open>x_a.txt\<close> exists; the run prints the error line for it and
  ends with the summary of one success and one failure.
\<close>

theorem existing_target_failure_count_counterexample:
  "bulk_rename example_world None ''d'' ''prefix''
     (no_kwargs\<lparr>kw_prefix := Some ''x_'', kw_force := Some True\<rparr>) =
   \<lparr>raised = None,
    stdout = [Preview [(''a.txt'', ''x_a.txt''), (''x_a.txt'', ''x_x_a.txt'')],
              ErrTargetExists ''a.txt'' ''x_a.txt'', Summary 1 1],
    world_after = example_world\<lparr>nodes :=
      [''d'' \<mapsto> Directory, ''d/a.txt'' \<mapsto> RegularFile 1, ''d/x_x_a.txt'' \<mapsto> RegularFile 2]\<rparr>\<rparr>"
  by (simp add: run_eval world_eval plan_eval)

text \<open>
  C1, amended: for every plan entry whose target exists when the loop comes to it, the
  executor leaves the file system as it is, adds one to the failure counter and prints
  the error line for an existing target (the code has no separate outcome for a
  skipped entry), and goes on to apply the remaining entries of the plan from that
  state.
\<close>

theorem existing_target_counted_as_error:
  assumes "st1 = apply_changes directory pre st0"
    and "path_exists (fs st1) (path_join directory new_name)"
  shows "apply_one directory (old_name, new_name) st1 =
           st1\<lparr>error_count := error_count st1 + 1,
               printed := printed st1 @ [ErrTargetExists old_name new_name]\<rparr> \<and>
         apply_changes directory (pre @ (old_name, new_name) # post) st0 =
           apply_changes directory post
             (st1\<lparr>error_count := error_count st1 + 1,
                  printed := printed st1 @ [ErrTargetExists old_name new_name]\<rparr>)"
proof -
  have one: "apply_one directory (old_name, new_name) st1 =
           st1\<lparr>error_count := error_count st1 + 1,
               printed := printed st1 @ [ErrTargetExists old_name new_name]\<rparr>"
    using assms(2) by (simp add: apply_one_def Let_def)
  have "apply_changes directory (pre @ (old_name, new_name) # post) st0 =
        apply_changes directory post (apply_one directory (old_name, new_name) st1)"
    by (simp add: apply_changes_append assms(1))
  with one show ?thesis by simp
qed

theorem existing_target_counted_as_error_witness:
  "path_exists example_world (path_join ''d'' ''x_a.txt'') \<and>
   apply_changes ''d'' [(''a.txt'', ''x_a.txt''), (''x_a.txt'', ''x_x_a.txt'')]
       \<lparr>fs = example_world, success_count = 0, error_count = 0, printed = []\<rparr> =
     \<lparr>fs = example_world\<lparr>nodes :=
             [''d'' \<mapsto> Directory, ''d/a.txt'' \<mapsto> RegularFile 1, ''d/x_x_a.txt'' \<mapsto> RegularFile 2]\<rparr>,
      success_count = 1, error_count = 1,
      printed = [ErrTargetExists ''a.txt'' ''x_a.txt'']\<rparr>"
proof -
  let ?st0 = "\<lparr>fs = example_world, success_count = 0, error_count = 0, printed = []\<rparr>"
  have s: "?st0 = apply_changes ''d'' [] ?st0" by simp
  have x: "path_exists (fs ?st0) (path_join ''d'' ''x_a.txt'')"
    by (simp add: world_eval)
  from existing_target_counted_as_error [OF s x, of "''a.txt''" "[(''x_a.txt'', ''x_x_a.txt'')]"]
  have "apply_changes ''d'' [(''a.txt'', ''x_a.txt''), (''x_a.txt'', ''x_x_a.txt'')] ?st0 =
        apply_changes ''d'' [(''x_a.txt'', ''x_x_a.txt'')]
          (?st0\<lparr>error_count := error_count ?st0 + 1,
                printed := printed ?st0 @ [ErrTargetExists ''a.txt'' ''x_a.txt'']\<rparr>)"
    by simp
  also have "\<dots> = \<lparr>fs = example_world\<lparr>nodes :=
             [''d'' \<mapsto> Directory, ''d/a.txt'' \<mapsto> RegularFile 1, ''d/x_x_a.txt'' \<mapsto> RegularFile 2]\<rparr>,
      success_count = 1, error_count = 1,
      printed = [ErrTargetExists ''a.txt'' ''x_a.txt'']\<rparr>"
    by (simp add: apply_one_def world_eval)
  finally show ?thesis using x by simp
qed

text \<open>
  C5: when the force flag is not set and the operator's answer is not a yes, the file
  system after the run is the file system before it.
\<close>

theorem decline_leaves_files_alone:
  assumes "\<not> kw_get (kw_force kw) False"
    and "lower (strip line) \<noteq> ''y''"
  shows "world_after (bulk_rename w (Some line) directory mode kw) = w"
  using assms
  by (simp add: bulk_rename_def Let_def split: sum.splits option.splits)

theorem decline_leaves_files_alone_witness:
  "world_after (bulk_rename example_world (Some ''n'') ''d'' ''prefix''
     (no_kwargs\<lparr>kw_prefix := Some ''x_''\<rparr>)) = example_world"
proof -
  have f: "\<not> kw_get (kw_force (no_kwargs\<lparr>kw_prefix := Some ''x_''\<rparr>)) False"
    by (simp add: no_kwargs_def kw_get_def)
  have n: "lower (strip ''n'') \<noteq> ''y''" by code_simp
  from decline_leaves_files_alone [OF f n] show ?thesis .
qed

text \<open>
  C9: when the force flag is not set and the plan is not empty, the plan is applied
  exactly when the answer, stripped of surrounding whitespace and lowercased, is the
  single character \<^verbatim>\<open>y\<close>; every other answer cancels the run and leaves the file
  system as it is.
\<close>

theorem only_y_confirms:
  assumes "\<not> kw_get (kw_force kw) False"
    and "path_isdir w directory"
    and "regular_files w directory \<noteq> []"
    and "collect_changes mode kw (enumerate1 (sort (regular_files w directory))) 1 [] =
           Inr (Some (c, changes))"
    and "changes \<noteq> []"
  shows "bulk_rename w (Some line) directory mode kw =
           (if lower (strip line) = ''y''
            then execute w directory changes [Preview changes, Prompt]
            else \<lparr>raised = None, stdout = [Preview changes, Prompt, Cancelled], world_after = w\<rparr>)"
  using assms by (simp add: bulk_rename_def Let_def)

theorem only_y_confirms_witness:
  "bulk_rename example_world (Some ''yes'') ''d'' ''prefix'' (no_kwargs\<lparr>kw_prefix := Some ''x_''\<rparr>) =
     \<lparr>raised = None,
      stdout = [Preview [(''a.txt'', ''x_a.txt''), (''x_a.txt'', ''x_x_a.txt'')], Prompt, Cancelled],
      world_after = example_world\<rparr> \<and>
   bulk_rename example_world (Some '' Y '') ''d'' ''prefix'' (no_kwargs\<lparr>kw_prefix := Some ''x_''\<rparr>) =
     execute example_world ''d'' [(''a.txt'', ''x_a.txt''), (''x_a.txt'', ''x_x_a.txt'')]
       [Preview [(''a.txt'', ''x_a.txt''), (''x_a.txt'', ''x_x_a.txt'')], Prompt]"
proof -
  let ?kw = "no_kwargs\<lparr>kw_prefix := Some ''x_''\<rparr>"
  have f: "\<not> kw_get (kw_force ?kw) False"
    by (simp add: no_kwargs_def kw_get_def)
  have d: "path_isdir example_world ''d''" by (simp add: world_eval)
  have r: "regular_files example_world ''d'' \<noteq> []" by (simp add: world_eval)
  have p: "collect_changes ''prefix'' ?kw (enumerate1 (sort (regular_files example_world ''d''))) 1 [] =
             Inr (Some (1, [(''a.txt'', ''x_a.txt''), (''x_a.txt'', ''x_x_a.txt'')]))"
    by (simp add: world_eval plan_eval)
  have ne: "[(''a.txt'', ''x_a.txt''), (''x_a.txt'', ''x_x_a.txt'')] \<noteq> []" by simp
  have yes: "lower (strip ''yes'') \<noteq> ''y''" by code_simp
  have y: "lower (strip '' Y '') = ''y''" by code_simp
  from only_y_confirms [OF f d r p ne, of "''yes''"] only_y_confirms [OF f d r p ne, of "'' Y ''"] yes y
  show ?thesis by simp
qed

subsection \<open>Exit status\<close>

text \<open>
  C2, as the specification states it: the exit code is not zero when the directory is
  not a valid directory. \<^verbatim>\<open>bulk_rename\<close> prints the error and returns, and \<^verbatim>\<open>main\<close>
  returns after it, so the status is 0.
\<close>

theorem invalid_directory_exit_counterexample:
  "\<not> path_isdir example_world ''nowhere'' \<and>
   fst (main example_world None [''nowhere'', ''prefix'', ''x_'']) = Some 0"
  by (simp add: main_eval run_eval world_eval no_kwargs_def)

text \<open>
  C2, amended: the process exits with status 0 whenever \<^verbatim>\<open>bulk_rename\<close> returns
  without an exception, which includes a directory without files, a plan without
  changes and also a path that is not a directory; it exits with status 2 when the
  mode is not one of the five modes (the argument parser rejects it) and with status
  1 when no mode is given.
\<close>

theorem exit_codes:
  "(parse_args argv = Namespace directory (Some mode) args force \<and>
      raised (bulk_rename w stdin directory mode (kwargs_of mode args force)) = None \<longrightarrow>
        fst (main w stdin argv) = Some 0) \<and>
   (parse_args argv = Namespace directory (Some mode) args force \<and>
      (\<not> path_isdir w directory \<or> regular_files w directory = [] \<or>
       (\<exists>c. collect_changes mode (kwargs_of mode args force)
               (enumerate1 (sort (regular_files w directory))) 1 [] = Inr (Some (c, [])))) \<longrightarrow>
        fst (main w stdin argv) = Some 0) \<and>
   (parse_args (directory # mode # rest) \<noteq> Unmodelled \<and> mode \<notin> set modes \<longrightarrow>
        fst (main w stdin (directory # mode # rest)) = Some 2) \<and>
   (parse_args argv = Namespace directory None args force \<longrightarrow> fst (main w stdin argv) = Some 1)"
proof (intro conjI impI)
  assume "parse_args argv = Namespace directory (Some mode) args force \<and>
      raised (bulk_rename w stdin directory mode (kwargs_of mode args force)) = None"
  then show "fst (main w stdin argv) = Some 0" by (simp add: main_def Let_def)
next
  assume a: "parse_args argv = Namespace directory (Some mode) args force \<and>
      (\<not> path_isdir w directory \<or> regular_files w directory = [] \<or>
       (\<exists>c. collect_changes mode (kwargs_of mode args force)
               (enumerate1 (sort (regular_files w directory))) 1 [] = Inr (Some (c, []))))"
  then have "raised (bulk_rename w stdin directory mode (kwargs_of mode args force)) = None"
    by (auto simp: bulk_rename_def Let_def)
  with a show "fst (main w stdin argv) = Some 0" by (simp add: main_def Let_def)
next
  assume a: "parse_args (directory # mode # rest) \<noteq> Unmodelled \<and> mode \<notin> set modes"
  then have "parse_args (directory # mode # rest) = UsageError"
    by (auto simp: parse_args_def Let_def split: if_splits)
  then show "fst (main w stdin (directory # mode # rest)) = Some 2" by (simp add: main_def Let_def)
next
  assume "parse_args argv = Namespace directory None args force"
  then show "fst (main w stdin argv) = Some 1" by (simp add: main_def Let_def)
qed

theorem exit_codes_witness:
  "fst (main example_world None [''d'', ''prefix'', ''x_'', ''-f'']) = Some 0 \<and>
   fst (main example_world None [''nowhere'', ''prefix'', ''x_'']) = Some 0 \<and>
   fst (main example_world None [''d'', ''bogus'', ''x_'']) = Some 2 \<and>
   fst (main example_world None [''d'']) = Some 1"
proof -
  have p1: "parse_args [''d'', ''prefix'', ''x_'', ''-f''] = Namespace ''d'' (Some ''prefix'') [''x_''] True"
    by (simp add: parse_args_def modes_def arity_def is_force_flag_def)
  have r1: "raised (bulk_rename example_world None ''d'' ''prefix'' (kwargs_of ''prefix'' [''x_''] True)) = None"
    by (simp add: kwargs_of_def run_eval world_eval plan_eval)
  have p2: "parse_args [''nowhere'', ''prefix'', ''x_''] = Namespace ''nowhere'' (Some ''prefix'') [''x_''] False"
    by (simp add: parse_args_def modes_def arity_def is_force_flag_def)
  have d2: "\<not> path_isdir example_world ''nowhere''" by (simp add: world_eval)
  have p3: "parse_args [''d'', ''bogus'', ''x_''] \<noteq> Unmodelled"
    by (simp add: parse_args_def modes_def arity_def is_force_flag_def)
  have m3: "''bogus'' \<notin> set modes" by (simp add: modes_def)
  have p4: "parse_args [''d''] = Namespace ''d'' None [] False"
    by (simp add: parse_args_def is_force_flag_def)
  have e1: "fst (main example_world None [''d'', ''prefix'', ''x_'', ''-f'']) = Some 0"
    using exit_codes [of "[''d'', ''prefix'', ''x_'', ''-f'']" "''d''" "''prefix''" "[''x_'']" True example_world None]
      p1 r1 by blast
  have e2: "fst (main example_world None [''nowhere'', ''prefix'', ''x_'']) = Some 0"
    using exit_codes [of "[''nowhere'', ''prefix'', ''x_'']" "''nowhere''" "''prefix''" "[''x_'']" False example_world None]
      p2 d2 by blast
  have e3: "fst (main example_world None [''d'', ''bogus'', ''x_'']) = Some 2"
    using exit_codes [of "[''d'', ''bogus'', ''x_'']" "''d''" "''bogus''" "[''x_'']" False example_world None "[''x_'']"]
      p3 m3 by blast
  have e4: "fst (main example_world None [''d'']) = Some 1"
    using exit_codes [of "[''d'']" "''d''" "''prefix''" "[]" False example_world None]
      p4 by blast
  from e1 e2 e3 e4 show ?thesis by simp
qed

end
